theory Spec2Isabelle
  imports Main "HOL-Library.Sublist"
begin

section \<open>Python values and errors\<close>

text \<open>
  The wrapper (\<^verbatim>\<open>docker/bar-server/bar_server_wrapper.py\<close>) and the health module
  (\<^verbatim>\<open>docker/bar-server/health_endpoint.py\<close>) handle three kinds of Python values:
  integers (the port), strings (environment values, log messages, the health body's
  keys and values) and one dict literal (the health body). Python integers are
  unbounded, so they are \<^typ>\<open>int\<close>. A Python string is the list of its code points,
  since an environment value can hold any character; \<open>lit\<close> gives the string of an
  ASCII literal of the source. A dict literal is the list of its items in insertion
  order. Names that the source only ever writes as ASCII literals and never computes
  with (the variable name \<^verbatim>\<open>PORT\<close>, methods, paths, the host) are plain strings.
\<close>

type_synonym pystr = "nat list"

definition lit :: "string \<Rightarrow> pystr" where
  "lit s = map of_char s"

datatype pyval =
    PyInt int
  | PyStr pystr
  | PyDict "(pyval \<times> pyval) list"

text \<open>
  An exception that reaches the top of the module is a value: \<open>ValueError\<close> is what
  \<^verbatim>\<open>int\<close> raises on a string that is no integer literal and \<open>TypeError\<close> what it
  raises on a value that is neither a number nor a string, \<open>NameError\<close> is the read of a
  global that is not bound, \<open>NoRouteMatched\<close> stands for the framework's answer when no route handles a request,
  and \<open>CollaboratorError\<close> is whatever an external collaborator (the environment-file
  loader, the query constructor, the network server) raises.
\<close>

datatype py_error =
    ValueError
  | TypeError
  | NameError string
  | NoRouteMatched
  | CollaboratorError string

section \<open>The builtin \<^verbatim>\<open>int\<close> on the values the wrapper passes to it\<close>

text \<open>
  \<^verbatim>\<open>int(x)\<close> with one argument: an integer is returned as it is; a string is read in
  base 10 as: optional whitespace, an optional sign \<^verbatim>\<open>+\<close> (43) or \<^verbatim>\<open>-\<close> (45), one or
  more decimal digits where a single underscore (95) may stand between two digits,
  optional whitespace. Anything else raises \<open>ValueError\<close>.

  The digits are the decimal digits of Unicode: ten consecutive code points from each
  of the zeros of \<open>decimal_zeros\<close> (Unicode 14.0, the table of CPython 3.11). The
  whitespace is what CPython's conversion skips: tab, line feed, vertical tab, form
  feed, carriage return and space, and the whitespace characters of Unicode beyond
  ASCII; the separators 28 to 31 are not skipped.

  CPython refuses a string of too many digits: when the number of digits is above 640
  and above the interpreter's limit \<open>lim\<close> (\<^verbatim>\<open>sys.get_int_max_str_digits()\<close>, 4300
  unless configured, 0 for no limit), \<^verbatim>\<open>int\<close> raises \<open>ValueError\<close>. Underscores do not
  count, leading zeros do.
\<close>

definition unicode_spaces :: "nat list" where
  "unicode_spaces =
     [0x85, 0xA0, 0x1680, 0x2000, 0x2001, 0x2002, 0x2003, 0x2004, 0x2005, 0x2006, 0x2007,
      0x2008, 0x2009, 0x200A, 0x2028, 0x2029, 0x202F, 0x205F, 0x3000]"

definition is_space :: "nat \<Rightarrow> bool" where
  "is_space c = (c \<in> set [9, 10, 11, 12, 13, 32] \<or> c \<in> set unicode_spaces)"

definition decimal_zeros :: "nat list" where
  "decimal_zeros =
     [0x30, 0x660, 0x6F0, 0x7C0, 0x966, 0x9E6, 0xA66, 0xAE6, 0xB66, 0xBE6, 0xC66, 0xCE6,
      0xD66, 0xDE6, 0xE50, 0xED0, 0xF20, 0x1040, 0x1090, 0x17E0, 0x1810, 0x1946, 0x19D0,
      0x1A80, 0x1A90, 0x1B50, 0x1BB0, 0x1C40, 0x1C50, 0xA620, 0xA8D0, 0xA900, 0xA9D0,
      0xA9F0, 0xAA50, 0xABF0, 0xFF10, 0x104A0, 0x10D30, 0x11066, 0x110F0, 0x11136,
      0x111D0, 0x112F0, 0x11450, 0x114D0, 0x11650, 0x116C0, 0x11730, 0x118E0, 0x11950,
      0x11C50, 0x11D50, 0x11DA0, 0x16A60, 0x16AC0, 0x16B50, 0x1D7CE, 0x1D7D8, 0x1D7E2,
      0x1D7EC, 0x1D7F6, 0x1E140, 0x1E2F0, 0x1E950, 0x1FBF0]"

definition digit_of :: "nat \<Rightarrow> nat option" where
  "digit_of c =
     (case find (\<lambda>z. z \<le> c \<and> c < z + 10) decimal_zeros of
        None \<Rightarrow> None
      | Some z \<Rightarrow> Some (c - z))"

definition is_digit :: "nat \<Rightarrow> bool" where
  "is_digit c = (digit_of c \<noteq> None)"

definition digit_val :: "nat \<Rightarrow> int" where
  "digit_val c = (case digit_of c of None \<Rightarrow> 0 | Some d \<Rightarrow> int d)"

text \<open>The string without the whitespace at its two ends.\<close>

definition strip :: "pystr \<Rightarrow> pystr" where
  "strip s = rev (dropWhile is_space (rev (dropWhile is_space s)))"

text \<open>
  \<open>int_digits acc cs\<close> reads the rest of a digit sequence whose value so far is
  \<open>acc\<close> and whose last character read was a digit.
\<close>

fun int_digits :: "int \<Rightarrow> pystr \<Rightarrow> int option" where
  "int_digits acc [] = Some acc"
| "int_digits acc [c] = (if is_digit c then Some (acc * 10 + digit_val c) else None)"
| "int_digits acc (c # d # cs) =
     (if is_digit c then int_digits (acc * 10 + digit_val c) (d # cs)
      else if c = 95 \<and> is_digit d then int_digits (acc * 10 + digit_val d) cs
      else None)"

definition exceeds_limit :: "nat \<Rightarrow> nat \<Rightarrow> bool" where
  "exceeds_limit lim d = (640 < d \<and> 0 < lim \<and> lim < d)"

definition int_body :: "nat \<Rightarrow> pystr \<Rightarrow> int option" where
  "int_body lim s =
     (case s of
        [] \<Rightarrow> None
      | c # cs \<Rightarrow>
          if is_digit c \<and> \<not> exceeds_limit lim (length (filter is_digit s))
          then int_digits (digit_val c) cs else None)"

definition int_of_str :: "nat \<Rightarrow> pystr \<Rightarrow> int option" where
  "int_of_str lim s =
     (case strip s of
        [] \<Rightarrow> None
      | c # cs \<Rightarrow>
          if c = 45 then map_option uminus (int_body lim cs)
          else if c = 43 then int_body lim cs
          else int_body lim (c # cs))"

fun py_int :: "nat \<Rightarrow> pyval \<Rightarrow> py_error + int" where
  "py_int lim (PyInt n) = Inr n"
| "py_int lim (PyStr s) = (case int_of_str lim s of None \<Rightarrow> Inl ValueError | Some n \<Rightarrow> Inr n)"
| "py_int lim (PyDict kvs) = Inl TypeError"

section \<open>The process environment\<close>

type_synonym environ = "string \<rightharpoonup> pystr"

text \<open>
  \<^verbatim>\<open>os.getenv(key, default)\<close>: the value of the variable as a string when the variable
  is in the environment, the default, as it was passed, when it is not.
\<close>

definition os_getenv :: "environ \<Rightarrow> string \<Rightarrow> pyval \<Rightarrow> pyval" where
  "os_getenv env key dflt = (case env key of None \<Rightarrow> dflt | Some v \<Rightarrow> PyStr v)"

text \<open>
  Line 48 of the wrapper: \<^verbatim>\<open>port = int(os.getenv("PORT", 8001))\<close>, under the
  interpreter's digit limit \<open>lim\<close>.
\<close>

definition resolve_port :: "nat \<Rightarrow> environ \<Rightarrow> py_error + int" where
  "resolve_port lim env = py_int lim (os_getenv env ''PORT'' (PyInt 8001))"

section \<open>The hosting framework's Application\<close>

text \<open>
  A handler is a function on the world \<open>'w\<close>: everything a request handler can read
  or change (the request, module globals, external services). It returns the response
  value, or the exception it raised, and the world it leaves.
\<close>

type_synonym 'w handler = "'w \<Rightarrow> (py_error + pyval) \<times> 'w"

record 'w route =
  route_method :: string
  route_path :: string
  endpoint :: "'w handler"

record 'w application =
  routes :: "'w route list"

text \<open>
  Modelled from the spec: the framework's route registration \<^verbatim>\<open>app.get(path)\<close>, applied
  as a decorator to a handler. The framework is an external collaborator and is not
  among the sources; the spec's data model says that the wrapper "extends its route
  table" and its component design that it "registers a single GET-style handler".
  Registration adds one route for method GET at the end of the table.
\<close>

definition app_get :: "string \<Rightarrow> 'w handler \<Rightarrow> 'w application \<Rightarrow> 'w application" where
  "app_get p h a =
     a\<lparr>routes := routes a @ [\<lparr>route_method = ''GET'', route_path = p, endpoint = h\<rparr>]\<rparr>"

text \<open>
  Modelled from the spec: the framework's dispatch, which is not among the sources
  either. The spec names the surface: GET \<^verbatim>\<open>/health\<close>, and the routes the Application
  had. A request is a method and a path; the first route of the table with the
  request's method whose path pattern matches the request's path handles it. How a
  pattern matches a path is the framework's own (\<open>pm\<close>); for a literal pattern it is
  equality.
\<close>

definition find_route ::
  "(string \<Rightarrow> string \<Rightarrow> bool) \<Rightarrow> 'w application \<Rightarrow> string \<Rightarrow> string \<Rightarrow> 'w route option" where
  "find_route pm a m p = find (\<lambda>r. route_method r = m \<and> pm (route_path r) p) (routes a)"

definition serve ::
  "(string \<Rightarrow> string \<Rightarrow> bool) \<Rightarrow> 'w application \<Rightarrow> string \<Rightarrow> string \<Rightarrow> 'w handler" where
  "serve pm a m p w =
     (case find_route pm a m p of
        None \<Rightarrow> (Inl NoRouteMatched, w)
      | Some r \<Rightarrow> endpoint r w)"

text \<open>The world after a history of requests, served one after the other.\<close>

fun serve_all ::
  "(string \<Rightarrow> string \<Rightarrow> bool) \<Rightarrow> 'w application \<Rightarrow> (string \<times> string) list \<Rightarrow> 'w \<Rightarrow> 'w" where
  "serve_all pm a [] w = w"
| "serve_all pm a ((m, p) # reqs) w = serve_all pm a reqs (snd (serve pm a m p w))"

section \<open>The health endpoint (\<^verbatim>\<open>health_endpoint.py\<close>)\<close>

text \<open>
  \<^verbatim>\<open>async def health(): return {"status": "healthy", "service": "bar-server"}\<close>.
  The handler takes no parameter and reads no global; awaiting it gives the dict.
\<close>

definition health :: "'w handler" where
  "health w =
     (Inr (PyDict [(PyStr (lit ''status''), PyStr (lit ''healthy'')), (PyStr (lit ''service''), PyStr (lit ''bar-server''))]),
      w)"

section \<open>The state of the process\<close>

text \<open>
  Objects live in a store and are named by references, so that two names for one
  object are two equal references. The Applications are owned by the framework: every
  reference of \<open>apps\<close> denotes one. The query constructors are allocated by the
  wrapper: a new one gets the next free address of \<open>qcs\<close>. \<open>'q\<close> is the content of
  a query constructor, which the wrapper never looks into.

  \<open>es_app\<close> and \<open>es_query_constructor\<close> are the attributes \<^verbatim>\<open>app\<close> and
  \<^verbatim>\<open>query_constructor\<close> of the module \<^verbatim>\<open>example_server\<close>; \<open>base_app\<close>,
  \<open>bar_constructor\<close>, \<open>app\<close> and \<open>port\<close> are the wrapper's own globals, \<open>None\<close>
  while they are not bound. \<open>int_max_str_digits\<close> is the interpreter's limit on the
  digits of a conversion. \<open>trace\<close> records, in order, the calls that leave the
  wrapper and the writes to \<^verbatim>\<open>example_server\<close>.
\<close>

type_synonym ref = nat

datatype event =
    EvLoadDotenv
  | EvLoggingBasicConfig
  | EvLogInfo "pyval list"
  | EvConstruct
  | EvSetQueryConstructor ref
  | EvAddRoute ref string string
  | EvGetenv string
  | EvUvicornRun ref string int

record ('q, 'w) state =
  int_max_str_digits :: nat
  os_environ :: environ
  apps :: "ref \<Rightarrow> 'w application"
  qcs :: "'q list"
  es_app :: ref
  es_query_constructor :: "ref option"
  base_app :: "ref option"
  bar_constructor :: "ref option"
  app :: "ref option"
  port :: "int option"
  trace :: "event list"

text \<open>
  The external collaborators the wrapper calls, as parameters: the environment-file
  loader (it may add variables to the environment, or raise), the constructor of the
  query constructor (it may read the environment, and return the new object's content
  or raise) and the network server's \<^verbatim>\<open>run\<close>, which blocks while it serves and then
  returns (\<open>None\<close>) or raises.
\<close>

record 'q collaborators =
  load_dotenv :: "environ \<Rightarrow> py_error + environ"
  BarQueryConstructor :: "environ \<Rightarrow> py_error + 'q"
  uvicorn_run :: "ref \<Rightarrow> string \<Rightarrow> int \<Rightarrow> py_error option"

type_synonym ('q, 'w) stmt = "('q, 'w) state \<Rightarrow> py_error option \<times> ('q, 'w) state"

definition emit :: "event \<Rightarrow> ('q, 'w) state \<Rightarrow> ('q, 'w) state" where
  "emit e s = s\<lparr>trace := trace s @ [e]\<rparr>"

text \<open>
  Statements run in order; an exception ends the run, since the wrapper has no
  \<^verbatim>\<open>try\<close>. The state at the exception is kept, with the trace up to it.
\<close>

fun exec :: "('q, 'w) stmt list \<Rightarrow> ('q, 'w) stmt" where
  "exec [] s = (None, s)"
| "exec (st # sts) s =
     (case st s of
        (None, s') \<Rightarrow> exec sts s'
      | (Some e, s') \<Rightarrow> (Some e, s'))"

definition logger_info :: "pyval list \<Rightarrow> ('q, 'w) stmt" where
  "logger_info msg s = (None, emit (EvLogInfo msg) s)"

text \<open>
  \<^verbatim>\<open>add_health_endpoint(app)\<close>: the decorator \<^verbatim>\<open>@app.get("/health")\<close> registers
  \<^verbatim>\<open>health\<close> on the object that \<open>a\<close> denotes.
\<close>

definition add_health_endpoint :: "ref \<Rightarrow> ('q, 'w) stmt" where
  "add_health_endpoint a s =
     (None, emit (EvAddRoute a ''GET'' ''/health'')
              (s\<lparr>apps := (apps s)(a := app_get ''/health'' health (apps s a))\<rparr>))"

section \<open>The wrapper's module body (\<^verbatim>\<open>bar_server_wrapper.py\<close>)\<close>

text \<open>Line 14: \<^verbatim>\<open>from example_server import app as base_app\<close>.\<close>

definition import_base_app :: "('q, 'w) stmt" where
  "import_base_app s = (None, s\<lparr>base_app := Some (es_app s)\<rparr>)"

text \<open>Line 18: \<^verbatim>\<open>load_dotenv()\<close>.\<close>

definition call_load_dotenv :: "'q collaborators \<Rightarrow> ('q, 'w) stmt" where
  "call_load_dotenv c s =
     (let s1 = emit EvLoadDotenv s in
      case load_dotenv c (os_environ s1) of
        Inl e \<Rightarrow> (Some e, s1)
      | Inr env \<Rightarrow> (None, s1\<lparr>os_environ := env\<rparr>))"

text \<open>Lines 21 and 22: \<^verbatim>\<open>logging.basicConfig(level=logging.INFO)\<close> and the logger.\<close>

definition logging_basicConfig :: "('q, 'w) stmt" where
  "logging_basicConfig s = (None, emit EvLoggingBasicConfig s)"

text \<open>Line 28: \<^verbatim>\<open>bar_constructor = BarQueryConstructor()\<close>.\<close>

definition construct_bar_constructor :: "'q collaborators \<Rightarrow> ('q, 'w) stmt" where
  "construct_bar_constructor c s =
     (let s1 = emit EvConstruct s in
      case BarQueryConstructor c (os_environ s1) of
        Inl e \<Rightarrow> (Some e, s1)
      | Inr q \<Rightarrow> (None, s1\<lparr>qcs := qcs s1 @ [q], bar_constructor := Some (length (qcs s1))\<rparr>))"

text \<open>
  Lines 32 and 33: \<^verbatim>\<open>import example_server\<close> (the module is loaded already) and
  \<^verbatim>\<open>example_server.query_constructor = bar_constructor\<close>.
\<close>

definition replace_query_constructor :: "('q, 'w) stmt" where
  "replace_query_constructor s =
     (case bar_constructor s of
        None \<Rightarrow> (Some (NameError ''bar_constructor''), s)
      | Some r \<Rightarrow> (None, emit (EvSetQueryConstructor r) (s\<lparr>es_query_constructor := Some r\<rparr>)))"

text \<open>Line 37: \<^verbatim>\<open>add_health_endpoint(base_app)\<close>.\<close>

definition call_add_health_endpoint :: "('q, 'w) stmt" where
  "call_add_health_endpoint s =
     (case base_app s of
        None \<Rightarrow> (Some (NameError ''base_app''), s)
      | Some a \<Rightarrow> add_health_endpoint a s)"

text \<open>Line 41: \<^verbatim>\<open>app = base_app\<close>.\<close>

definition bind_app :: "('q, 'w) stmt" where
  "bind_app s =
     (case base_app s of
        None \<Rightarrow> (Some (NameError ''base_app''), s)
      | Some a \<Rightarrow> (None, s\<lparr>app := Some a\<rparr>))"

text \<open>Line 48: \<^verbatim>\<open>port = int(os.getenv("PORT", 8001))\<close>.\<close>

definition read_port :: "('q, 'w) stmt" where
  "read_port s =
     (let s1 = emit (EvGetenv ''PORT'') s in
      case resolve_port (int_max_str_digits s1) (os_environ s1) of
        Inl e \<Rightarrow> (Some e, s1)
      | Inr n \<Rightarrow> (None, s1\<lparr>port := Some n\<rparr>))"

text \<open>
  Line 51: the log line of the start, an f-string of a constant text and the port.
  The text begins with a non-ASCII character, the code point 1F379.
\<close>

definition log_starting :: "('q, 'w) stmt" where
  "log_starting s =
     (case port s of
        None \<Rightarrow> (Some (NameError ''port''), s)
      | Some p \<Rightarrow>
          logger_info
            [PyStr (0x1F379 #
               lit '' Alchemix Bar Assistant Memory Layer starting on http://0.0.0.0:''),
             PyInt p] s)"

text \<open>Line 52: \<^verbatim>\<open>uvicorn.run(app, host="0.0.0.0", port=port)\<close>.\<close>

definition call_uvicorn_run :: "'q collaborators \<Rightarrow> ('q, 'w) stmt" where
  "call_uvicorn_run c s =
     (case app s of
        None \<Rightarrow> (Some (NameError ''app''), s)
      | Some a \<Rightarrow>
          (case port s of
             None \<Rightarrow> (Some (NameError ''port''), s)
           | Some p \<Rightarrow> (uvicorn_run c a ''0.0.0.0'' p, emit (EvUvicornRun a ''0.0.0.0'' p) s)))"

text \<open>
  Lines 44 to 52: the entry point, run only when the module's \<^verbatim>\<open>__name__\<close> is
  \<^verbatim>\<open>"__main__"\<close>.
\<close>

definition main_block :: "'q collaborators \<Rightarrow> string \<Rightarrow> ('q, 'w) stmt" where
  "main_block c name s =
     (if name = ''__main__''
      then exec [read_port, log_starting, call_uvicorn_run c] s
      else (None, s))"

text \<open>
  The module body, from line 14 on; \<open>name\<close> is the module's \<^verbatim>\<open>__name__\<close>. The imports
  of lines 6 to 15 load the collaborators' modules; of the names they bind, the run
  reads \<open>base_app\<close>, bound at line 14. \<^verbatim>\<open>import uvicorn\<close> at line 45 binds a module and
  leaves no event.
\<close>

definition module_body :: "'q collaborators \<Rightarrow> string \<Rightarrow> ('q, 'w) stmt" where
  "module_body c name =
     exec
       [import_base_app,
        call_load_dotenv c,
        logging_basicConfig,
        logger_info [PyStr (lit ''Initializing BarQueryConstructor...'')],
        construct_bar_constructor c,
        replace_query_constructor,
        logger_info [PyStr (lit ''Replaced query constructor with BarQueryConstructor'')],
        call_add_health_endpoint,
        logger_info [PyStr (lit ''Added health endpoint'')],
        bind_app,
        main_block c name]"

section \<open>Observations on a run\<close>

text \<open>
  The events a run adds to the trace, and what the claims look for among them: the
  starts of the network listener, the writes to \<^verbatim>\<open>example_server.query_constructor\<close>
  and the reads of the environment.
\<close>

definition new_events :: "('q, 'w) state \<Rightarrow> ('q, 'w) state \<Rightarrow> event list" where
  "new_events s s' = drop (length (trace s)) (trace s')"

fun listeners :: "event list \<Rightarrow> (ref \<times> string \<times> int) list" where
  "listeners [] = []"
| "listeners (EvUvicornRun a h p # es) = (a, h, p) # listeners es"
| "listeners (e # es) = listeners es"

fun qc_writes :: "event list \<Rightarrow> ref list" where
  "qc_writes [] = []"
| "qc_writes (EvSetQueryConstructor r # es) = r # qc_writes es"
| "qc_writes (e # es) = qc_writes es"

fun env_reads :: "event list \<Rightarrow> string list" where
  "env_reads [] = []"
| "env_reads (EvGetenv k # es) = k # env_reads es"
| "env_reads (e # es) = env_reads es"





text \<open>
  The events of lines 18 to 38, the events of the entry point, and the state that
  lines 14 to 41 leave when the loader returns \<open>env\<close> and the constructor \<open>q\<close>.
\<close>

definition startup_events :: "ref \<Rightarrow> ref \<Rightarrow> event list" where
  "startup_events a r =
     [EvLoadDotenv, EvLoggingBasicConfig,
      EvLogInfo [PyStr (lit ''Initializing BarQueryConstructor...'')],
      EvConstruct, EvSetQueryConstructor r,
      EvLogInfo [PyStr (lit ''Replaced query constructor with BarQueryConstructor'')],
      EvAddRoute a ''GET'' ''/health'',
      EvLogInfo [PyStr (lit ''Added health endpoint'')]]"

definition entry_events :: "ref \<Rightarrow> int \<Rightarrow> event list" where
  "entry_events a n =
     [EvGetenv ''PORT'',
      EvLogInfo [PyStr (0x1F379 #
         lit '' Alchemix Bar Assistant Memory Layer starting on http://0.0.0.0:''), PyInt n],
      EvUvicornRun a ''0.0.0.0'' n]"

definition configured :: "('q, 'w) state \<Rightarrow> environ \<Rightarrow> 'q \<Rightarrow> ('q, 'w) state" where
  "configured s env q =
     s\<lparr>os_environ := env,
       apps := (apps s)(es_app s := app_get ''/health'' health (apps s (es_app s))),
       qcs := qcs s @ [q],
       es_query_constructor := Some (length (qcs s)),
       base_app := Some (es_app s),
       bar_constructor := Some (length (qcs s)),
       app := Some (es_app s),
       trace := trace s @ startup_events (es_app s) (length (qcs s))\<rparr>"

text \<open>
  The integer literals in the words of the language reference, without the parser: a
  body is one or more digits with single underscores between digits only; a literal
  is a body with an optional sign before it and optional whitespace around the two.
  Its value is the decimal value of its digits, negated after \<^verbatim>\<open>-\<close>.
\<close>

definition decimal :: "pystr \<Rightarrow> int" where
  "decimal s = foldl (\<lambda>acc c. acc * 10 + digit_val c) 0 s"

definition literal_body :: "pystr \<Rightarrow> bool" where
  "literal_body b =
     (b \<noteq> [] \<and> (\<forall>c \<in> set b. is_digit c \<or> c = 95) \<and> is_digit (hd b) \<and> is_digit (last b) \<and>
      \<not> sublist [95, 95] b)"

definition int_literal :: "pystr \<Rightarrow> int \<Rightarrow> bool" where
  "int_literal s n =
     (\<exists>lead sg b trail.
        s = lead @ sg @ b @ trail \<and> list_all is_space lead \<and> list_all is_space trail \<and>
        (sg = [] \<or> sg = [43] \<or> sg = [45]) \<and> literal_body b \<and>
        n = (if sg = [45] then - decimal (filter is_digit b) else decimal (filter is_digit b)))"

definition digit_count :: "pystr \<Rightarrow> nat" where
  "digit_count s = length (filter is_digit s)"

text \<open>What may follow a digit inside a body.\<close>

definition tail_ok :: "pystr \<Rightarrow> bool" where
  "tail_ok cs =
     ((\<forall>c \<in> set cs. is_digit c \<or> c = 95) \<and> (cs \<noteq> [] \<longrightarrow> is_digit (last cs)) \<and>
      \<not> sublist [95, 95] cs)"

text \<open>
  The network side of \<^verbatim>\<open>uvicorn.run\<close>. A TCP port is a number of 16 bits: on a port
  outside 0 to 65535 no socket can be bound, and the server raises. \<open>bindable_listeners\<close>
  keeps the starts of the listener whose port is one; whether the socket is then
  obtained is the operating system's.
\<close>

definition tcp_port :: "int \<Rightarrow> bool" where
  "tcp_port p = (0 \<le> p \<and> p \<le> 65535)"

definition bindable_listeners :: "event list \<Rightarrow> (ref \<times> string \<times> int) list" where
  "bindable_listeners es = filter (\<lambda>(a, h, p). tcp_port p) (listeners es)"

text \<open>
  Collaborators that never raise, and a state with one empty Application and the
  default digit limit, for examples.
\<close>

definition example_collaborators :: "nat collaborators" where
  "example_collaborators =
     \<lparr>load_dotenv = (\<lambda>env. Inr env),
      BarQueryConstructor = (\<lambda>env. Inr 7),
      uvicorn_run = (\<lambda>a h p. None)\<rparr>"

definition start_state :: "environ \<Rightarrow> (nat, unit) state" where
  "start_state env =
     \<lparr>int_max_str_digits = 4300, os_environ = env, apps = (\<lambda>a. \<lparr>routes = []\<rparr>), qcs = [],
      es_app = 0,
      es_query_constructor = None, base_app = None, bar_constructor = None, app = None,
      port = None, trace = []\<rparr>"

text \<open>
  A state whose Application has one route already, with a handler that counts the
  requests it serves in the world.
\<close>

definition example_root :: "nat handler" where
  "example_root w = (Inr (PyStr (lit ''ok'')), Suc w)"

definition served_state :: "(nat, nat) state" where
  "served_state =
     \<lparr>int_max_str_digits = 4300, os_environ = Map.empty,
      apps = (\<lambda>a. \<lparr>routes = [\<lparr>route_method = ''GET'', route_path = ''/'', endpoint = example_root\<rparr>]\<rparr>),
      qcs = [], es_app = 0,
      es_query_constructor = None, base_app = None, bar_constructor = None, app = None,
      port = None, trace = []\<rparr>"

section \<open>The builtin \<^verbatim>\<open>int\<close> on strings\<close>

text \<open>The signs and the underscore are no digits, and no whitespace character is one.\<close>

lemma digit_of_ascii: "digit_of 43 = None" "digit_of 45 = None" "digit_of 95 = None"
  by (simp_all add: digit_of_def decimal_zeros_def)

lemma not_digit_sign: "\<not> is_digit 43" "\<not> is_digit 45" "\<not> is_digit 95"
  by (simp_all add: is_digit_def digit_of_ascii)

lemma space_digit_of:
  "c \<in> set [9, 10, 11, 12, 13, 32] \<or> c \<in> set unicode_spaces \<Longrightarrow> digit_of c = None"
  unfolding unicode_spaces_def
  by (elim disjE; simp; elim disjE; simp add: digit_of_def decimal_zeros_def)

lemma space_not_digit: "is_space c \<Longrightarrow> \<not> is_digit c"
  by (simp only: is_space_def is_digit_def space_digit_of not_False_eq_True simp_thms)

lemma not_space_sign: "\<not> is_space 43" "\<not> is_space 45"
  by (simp_all add: is_space_def unicode_spaces_def)

lemma ascii_digit_of: "48 \<le> c \<Longrightarrow> c \<le> 57 \<Longrightarrow> digit_of c = Some (c - 48)"
  by (simp add: digit_of_def decimal_zeros_def)

lemma ascii_digit: "48 \<le> c \<Longrightarrow> c \<le> 57 \<Longrightarrow> is_digit c \<and> digit_val c = int c - 48"
  by (simp add: is_digit_def digit_val_def ascii_digit_of)

text \<open>The parser of a digit sequence accepts the bodies, and reads their value.\<close>

lemma sublist_pair_Cons:
  "sublist [u, u] (c # cs) \<longleftrightarrow> (c = u \<and> cs \<noteq> [] \<and> hd cs = u) \<or> sublist [u, u] cs"
  by (cases cs) (auto simp add: sublist_Cons_right)

lemma tail_ok_Nil: "tail_ok []"
  by (simp add: tail_ok_def)

lemma tail_ok_digit: "is_digit c \<Longrightarrow> tail_ok (c # cs) \<longleftrightarrow> tail_ok cs"
  using not_digit_sign(3) by (cases cs) (auto simp add: tail_ok_def sublist_pair_Cons)

lemma tail_ok_underscore:
  "tail_ok (95 # cs) \<longleftrightarrow> cs \<noteq> [] \<and> is_digit (hd cs) \<and> tail_ok (tl cs)"
  using not_digit_sign(3)
  by (cases cs) (auto simp add: tail_ok_def sublist_pair_Cons split: if_splits)

lemma tail_ok_other: "\<not> is_digit c \<Longrightarrow> c \<noteq> 95 \<Longrightarrow> \<not> tail_ok (c # cs)"
  by (simp add: tail_ok_def)

lemma int_digits_tail:
  "int_digits acc cs =
     (if tail_ok cs then Some (foldl (\<lambda>acc c. acc * 10 + digit_val c) acc (filter is_digit cs))
      else None)"
proof (induction acc cs rule: int_digits.induct)
  case (1 acc)
  show ?case by (simp add: tail_ok_Nil)
next
  case (2 acc c)
  show ?case
  proof (cases "is_digit c")
    case True
    then show ?thesis by (simp add: tail_ok_digit tail_ok_Nil)
  next
    case False
    then show ?thesis
      by (cases "c = 95") (simp_all add: tail_ok_underscore tail_ok_other)
  qed
next
  case (3 acc c d cs)
  show ?case
  proof (cases "is_digit c")
    case True
    then show ?thesis using 3(1) by (simp add: tail_ok_digit)
  next
    case nd: False
    show ?thesis
    proof (cases "c = 95")
      case False
      then show ?thesis using nd by (simp add: tail_ok_other)
    next
      case True
      then show ?thesis
        using nd 3(2) not_digit_sign(3) by (simp add: tail_ok_underscore)
    qed
  qed
qed

lemma literal_body_Cons: "literal_body (c # cs) \<longleftrightarrow> is_digit c \<and> tail_ok cs"
  using not_digit_sign(3)
  by (cases cs) (auto simp add: literal_body_def tail_ok_def sublist_pair_Cons)

lemma int_body_literal:
  "int_body lim b =
     (if literal_body b \<and> \<not> exceeds_limit lim (digit_count b)
      then Some (decimal (filter is_digit b)) else None)"
proof (cases b)
  case Nil
  then show ?thesis by (simp add: int_body_def literal_body_def)
next
  case (Cons c cs)
  then show ?thesis
    by (simp add: int_body_def literal_body_Cons int_digits_tail decimal_def digit_count_def)
qed

text \<open>
  The parser and the literals agree: \<^verbatim>\<open>int\<close> returns \<open>n\<close> on a string exactly when the
  string is an integer literal of value \<open>n\<close> and its digits are within the limit.
\<close>

lemma strip_decomp:
  "\<exists>lead trail. s = lead @ strip s @ trail \<and> list_all is_space lead \<and> list_all is_space trail"
proof -
  let ?t = "dropWhile is_space s"
  have "s = takeWhile is_space s @ ?t" by simp
  moreover have "rev ?t = takeWhile is_space (rev ?t) @ dropWhile is_space (rev ?t)" by simp
  then have "?t = strip s @ rev (takeWhile is_space (rev ?t))"
    by (metis rev_append rev_rev_ident strip_def)
  moreover have "list_all is_space (takeWhile is_space s)"
    by (simp add: list_all_iff) (meson set_takeWhileD)
  moreover have "list_all is_space (rev (takeWhile is_space (rev ?t)))"
    by (simp add: list_all_iff) (meson set_takeWhileD)
  ultimately show ?thesis by metis
qed

lemma dropWhile_spaces:
  "list_all is_space lead \<Longrightarrow> x \<noteq> [] \<Longrightarrow> \<not> is_space (hd x) \<Longrightarrow>
     dropWhile is_space (lead @ x @ rest) = x @ rest"
  by (induction lead) (simp_all add: dropWhile_eq_self_iff)

lemma strip_sandwich:
  assumes "list_all is_space lead" and "list_all is_space trail"
    and "x \<noteq> []" and "\<not> is_space (hd x)" and "\<not> is_space (last x)"
  shows "strip (lead @ x @ trail) = x"
proof -
  have "dropWhile is_space (lead @ x @ trail) = x @ trail"
    using assms by (simp add: dropWhile_spaces)
  moreover have "dropWhile is_space (rev trail @ rev x @ []) = rev x @ []"
    using assms by (intro dropWhile_spaces) (simp_all add: hd_rev)
  ultimately show ?thesis by (simp add: strip_def)
qed

lemma filter_spaces: "list_all is_space xs \<Longrightarrow> filter is_digit xs = []"
  by (induction xs) (simp_all add: space_not_digit)

lemma literal_body_ends:
  "literal_body b \<Longrightarrow> b \<noteq> [] \<and> is_digit (hd b) \<and> is_digit (last b)"
  by (simp add: literal_body_def)

lemma int_of_str_literal:
  assumes "int_literal s n" and "\<not> exceeds_limit lim (digit_count s)"
  shows "int_of_str lim s = Some n"
proof -
  obtain lead sg b trail where s: "s = lead @ sg @ b @ trail"
    and sp: "list_all is_space lead" "list_all is_space trail"
    and sg: "sg = [] \<or> sg = [43] \<or> sg = [45]"
    and b: "literal_body b"
    and n: "n = (if sg = [45] then - decimal (filter is_digit b) else decimal (filter is_digit b))"
    using assms(1) unfolding int_literal_def by blast
  obtain c cs where bc: "b = c # cs" and c: "is_digit c"
    using literal_body_ends [OF b] by (cases b) simp_all
  have lastb: "\<not> is_space (last b)"
    using literal_body_ends [OF b] space_not_digit by blast
  have cnt: "digit_count s = digit_count b"
    using sp sg not_digit_sign by (auto simp add: s digit_count_def filter_spaces)
  then have lim: "\<not> exceeds_limit lim (digit_count b)"
    using assms(2) by simp
  have body: "int_body lim b = Some (decimal (filter is_digit b))"
    using b lim by (simp add: int_body_literal)
  have c_ns: "\<not> is_space c" and c_sign: "c \<noteq> 45" "c \<noteq> 43"
    using c space_not_digit not_digit_sign by blast+
  have st: "strip s = sg @ b"
  proof -
    have "strip (lead @ (sg @ b) @ trail) = sg @ b"
      using sp sg lastb c_ns not_space_sign
      by (intro strip_sandwich) (auto simp add: bc)
    then show ?thesis by (simp add: s)
  qed
  show ?thesis
    using sg
  proof (elim disjE)
    assume "sg = []"
    then show ?thesis
      using st body n c_sign by (simp add: int_of_str_def bc)
  next
    assume "sg = [43]"
    then show ?thesis
      using st body n by (simp add: int_of_str_def)
  next
    assume "sg = [45]"
    then show ?thesis
      using st body n by (simp add: int_of_str_def)
  qed
qed

lemma int_of_str_sound:
  assumes "int_of_str lim s = Some n"
  shows "int_literal s n \<and> \<not> exceeds_limit lim (digit_count s)"
proof -
  obtain lead trail where s: "s = lead @ strip s @ trail"
    and sp: "list_all is_space lead" "list_all is_space trail"
    using strip_decomp by blast
  obtain c cs where st: "strip s = c # cs"
    using assms by (cases "strip s") (simp_all add: int_of_str_def)
  have key: "\<exists>sg b. c # cs = sg @ b \<and> (sg = [] \<or> sg = [43] \<or> sg = [45]) \<and> literal_body b \<and>
      \<not> exceeds_limit lim (digit_count b) \<and>
      n = (if sg = [45] then - decimal (filter is_digit b) else decimal (filter is_digit b))"
  proof (cases "c = 45")
    case True
    then obtain m where "int_body lim cs = Some m" and "n = - m"
      using assms st by (auto simp add: int_of_str_def)
    then have "literal_body cs \<and> \<not> exceeds_limit lim (digit_count cs) \<and>
        n = - decimal (filter is_digit cs)"
      by (auto simp add: int_body_literal split: if_splits)
    then show ?thesis
      using True by (intro exI [of _ "[45]"] exI [of _ cs]) simp
  next
    case n45: False
    show ?thesis
    proof (cases "c = 43")
      case True
      then have "int_body lim cs = Some n"
        using assms st by (simp add: int_of_str_def)
      then have "literal_body cs \<and> \<not> exceeds_limit lim (digit_count cs) \<and>
          n = decimal (filter is_digit cs)"
        by (auto simp add: int_body_literal split: if_splits)
      then show ?thesis
        using True by (intro exI [of _ "[43]"] exI [of _ cs]) simp
    next
      case False
      then have "int_body lim (c # cs) = Some n"
        using assms st n45 by (simp add: int_of_str_def)
      then have "literal_body (c # cs) \<and> \<not> exceeds_limit lim (digit_count (c # cs)) \<and>
          n = decimal (filter is_digit (c # cs))"
        by (auto simp add: int_body_literal split: if_splits)
      then show ?thesis
        by (intro exI [of _ "[]"] exI [of _ "c # cs"]) simp
    qed
  qed
  then obtain sg b where cb: "c # cs = sg @ b"
    and sg: "sg = [] \<or> sg = [43] \<or> sg = [45]" and b: "literal_body b"
    and lim: "\<not> exceeds_limit lim (digit_count b)"
    and n: "n = (if sg = [45] then - decimal (filter is_digit b) else decimal (filter is_digit b))"
    by blast
  have s': "s = lead @ sg @ b @ trail"
    using s st cb by simp
  have cnt: "digit_count s = digit_count b"
    using sp sg not_digit_sign
    by (subst s') (auto simp add: digit_count_def filter_spaces)
  have "int_literal s n"
    unfolding int_literal_def using s' sp sg b n by blast
  then show ?thesis
    using lim cnt by simp
qed

lemma int_of_str_iff:
  "int_of_str lim s = Some n \<longleftrightarrow> int_literal s n \<and> \<not> exceeds_limit lim (digit_count s)"
  using int_of_str_sound int_of_str_literal by blast

lemma int_of_str_not_literal: "\<forall>n. \<not> int_literal s n \<Longrightarrow> int_of_str lim s = None"
  using int_of_str_sound by (cases "int_of_str lim s") blast+

lemma int_of_str_over_limit: "exceeds_limit lim (digit_count s) \<Longrightarrow> int_of_str lim s = None"
  using int_of_str_sound by (cases "int_of_str lim s") blast+

lemma digits_literal:
  assumes "s \<noteq> []" and "list_all is_digit s"
  shows "int_literal s (decimal s)"
proof -
  have f: "filter is_digit s = s"
    using assms(2) by (simp add: list_all_iff)
  have "\<not> sublist [95, 95] s"
  proof
    assume "sublist [95, 95] s"
    then have "95 \<in> set s" by (auto simp add: sublist_def)
    then show False using assms(2) not_digit_sign(3) by (auto simp add: list_all_iff)
  qed
  then have "literal_body s"
    using assms by (auto simp add: literal_body_def list_all_iff)
  then show ?thesis
    unfolding int_literal_def
    by (intro exI [of _ "[]"] exI [of _ s]) (simp add: f)
qed

section \<open>The courses of a run\<close>

lemmas stmt_defs = import_base_app_def call_load_dotenv_def logging_basicConfig_def
  logger_info_def construct_bar_constructor_def replace_query_constructor_def
  call_add_health_endpoint_def add_health_endpoint_def bind_app_def read_port_def
  log_starting_def call_uvicorn_run_def emit_def

lemma module_body_imported:
  assumes "load_dotenv c (os_environ s) = Inr env" and "BarQueryConstructor c env = Inr q"
    and "name \<noteq> ''__main__''"
  shows "module_body c name s = (None, configured s env q)"
  using assms
  by (simp add: module_body_def main_block_def stmt_defs configured_def startup_events_def)

lemma module_body_main_ok:
  assumes "load_dotenv c (os_environ s) = Inr env" and "BarQueryConstructor c env = Inr q"
    and "resolve_port (int_max_str_digits s) env = Inr n"
  shows "module_body c ''__main__'' s =
     (uvicorn_run c (es_app s) ''0.0.0.0'' n,
      (configured s env q)\<lparr>port := Some n,
         trace := trace s @ startup_events (es_app s) (length (qcs s)) @ entry_events (es_app s) n\<rparr>)"
  using assms
  by (simp add: module_body_def main_block_def stmt_defs configured_def startup_events_def
      entry_events_def split: option.splits)

lemma module_body_port_fails:
  assumes "load_dotenv c (os_environ s) = Inr env" and "BarQueryConstructor c env = Inr q"
    and "resolve_port (int_max_str_digits s) env = Inl e"
  shows "module_body c ''__main__'' s =
     (Some e, (configured s env q)\<lparr>trace :=
        trace s @ startup_events (es_app s) (length (qcs s)) @ [EvGetenv ''PORT'']\<rparr>)"
  using assms
  by (simp add: module_body_def main_block_def stmt_defs configured_def startup_events_def)

lemma module_body_construct_fails:
  assumes "load_dotenv c (os_environ s) = Inr env" and "BarQueryConstructor c env = Inl e"
  shows "module_body c name s =
     (Some e, s\<lparr>os_environ := env, base_app := Some (es_app s),
        trace := trace s @ [EvLoadDotenv, EvLoggingBasicConfig,
          EvLogInfo [PyStr (lit ''Initializing BarQueryConstructor...'')], EvConstruct]\<rparr>)"
  using assms by (simp add: module_body_def main_block_def stmt_defs)

lemma module_body_dotenv_fails:
  assumes "load_dotenv c (os_environ s) = Inl e"
  shows "module_body c name s =
     (Some e, s\<lparr>base_app := Some (es_app s), trace := trace s @ [EvLoadDotenv]\<rparr>)"
  using assms by (simp add: module_body_def main_block_def stmt_defs)

text \<open>
  A run takes one of five courses: the loader raises, the constructor raises, the
  module is imported, the port does not parse, or the listener is started.
\<close>

lemma new_events_cases:
  fixes c :: "'q collaborators" and s :: "('q, 'w) state"
  obtains
    (dotenv_fails) e where "load_dotenv c (os_environ s) = Inl e"
      "new_events s (snd (module_body c name s)) = [EvLoadDotenv]"
  | (construct_fails) env e where "load_dotenv c (os_environ s) = Inr env"
      "BarQueryConstructor c env = Inl e"
      "new_events s (snd (module_body c name s)) = take 4 (startup_events (es_app s) (length (qcs s)))"
  | (imported) env q where "load_dotenv c (os_environ s) = Inr env"
      "BarQueryConstructor c env = Inr q" "name \<noteq> ''__main__''"
      "new_events s (snd (module_body c name s)) = startup_events (es_app s) (length (qcs s))"
  | (port_fails) env q e where "load_dotenv c (os_environ s) = Inr env"
      "BarQueryConstructor c env = Inr q" "name = ''__main__''" "resolve_port (int_max_str_digits s) env = Inl e"
      "new_events s (snd (module_body c name s)) =
         startup_events (es_app s) (length (qcs s)) @ [EvGetenv ''PORT'']"
  | (listens) env q n where "load_dotenv c (os_environ s) = Inr env"
      "BarQueryConstructor c env = Inr q" "name = ''__main__''" "resolve_port (int_max_str_digits s) env = Inr n"
      "new_events s (snd (module_body c name s)) =
         startup_events (es_app s) (length (qcs s)) @ entry_events (es_app s) n"
proof (cases "load_dotenv c (os_environ s)")
  case (Inl e)
  then show ?thesis
    using dotenv_fails by (simp add: module_body_dotenv_fails new_events_def)
next
  case env: (Inr env)
  show ?thesis
  proof (cases "BarQueryConstructor c env")
    case (Inl e)
    then show ?thesis
      using construct_fails env
      by (simp add: module_body_construct_fails new_events_def startup_events_def)
  next
    case q: (Inr q)
    show ?thesis
    proof (cases "name = ''__main__''")
      case False
      then show ?thesis
        using imported env q by (simp add: module_body_imported new_events_def configured_def)
    next
      case main: True
      show ?thesis
      proof (cases "resolve_port (int_max_str_digits s) env")
        case (Inl e)
        then show ?thesis
          using port_fails env q main by (simp add: module_body_port_fails new_events_def)
      next
        case (Inr n)
        then show ?thesis
          using listens env q main by (simp add: module_body_main_ok new_events_def)
      qed
    qed
  qed
qed

lemma listeners_startup [simp]: "listeners (startup_events a r) = []"
  by (simp add: startup_events_def)

lemma listeners_append [simp]: "listeners (xs @ ys) = listeners xs @ listeners ys"
  by (induction xs rule: listeners.induct) simp_all

lemma listeners_entry_events: "listeners (entry_events a n) = [(a, ''0.0.0.0'', n)]"
  by (simp add: entry_events_def)

lemma listeners_host:
  "list_all (\<lambda>(a, h, p). h = ''0.0.0.0'') (listeners (new_events s (snd (module_body c name s))))"
  by (rule new_events_cases [where c = c and s = s and name = name])
    (simp_all add: listeners_entry_events startup_events_def)

lemma env_reads_startup_events: "env_reads (startup_events a r) = []"
  by (simp add: startup_events_def)

lemma qc_writes_startup_events: "qc_writes (startup_events a r) = [r]"
  by (simp add: startup_events_def)

lemma qc_writes_append: "qc_writes (xs @ ys) = qc_writes xs @ qc_writes ys"
  by (induction xs rule: qc_writes.induct) simp_all

lemma qc_writes_entry_events: "qc_writes (entry_events a n) = []"
  by (simp add: entry_events_def)




lemma configured_fields:
  "app (configured s env q) = Some (es_app s)"
  "base_app (configured s env q) = Some (es_app s)"
  "es_app (configured s env q) = es_app s"
  "es_query_constructor (configured s env q) = Some (length (qcs s))"
  "bar_constructor (configured s env q) = Some (length (qcs s))"
  "qcs (configured s env q) = qcs s @ [q]"
  "port (configured s env q) = port s"
  "apps (configured s env q) =
     (apps s)(es_app s := app_get ''/health'' health (apps s (es_app s)))"
  by (simp_all add: configured_def)

text \<open>The state after lines 14 to 41, whatever the entry point then does.\<close>

lemma module_body_configured:
  assumes "load_dotenv c (os_environ s) = Inr env" and "BarQueryConstructor c env = Inr q"
  shows "\<exists>p t. snd (module_body c name s) = (configured s env q)\<lparr>port := p, trace := t\<rparr>"
proof (cases "name = ''__main__''")
  case False
  then have "snd (module_body c name s) =
      (configured s env q)\<lparr>port := port s, trace := trace (configured s env q)\<rparr>"
    using assms by (simp add: module_body_imported configured_def)
  then show ?thesis by blast
next
  case True
  show ?thesis
  proof (cases "resolve_port (int_max_str_digits s) env")
    case (Inl e)
    then have "snd (module_body c name s) = (configured s env q)\<lparr>port := port s,
        trace := trace s @ startup_events (es_app s) (length (qcs s)) @ [EvGetenv ''PORT'']\<rparr>"
      using assms True by (simp add: module_body_port_fails configured_def)
    then show ?thesis by blast
  next
    case (Inr n)
    then have "snd (module_body c name s) = (configured s env q)\<lparr>port := Some n,
        trace := trace s @ startup_events (es_app s) (length (qcs s)) @ entry_events (es_app s) n\<rparr>"
      using assms True by (simp add: module_body_main_ok)
    then show ?thesis by blast
  qed
qed

section \<open>Registration and dispatch\<close>

lemma find_snoc:
  "find P (xs @ [x]) = (case find P xs of None \<Rightarrow> (if P x then Some x else None) | Some y \<Rightarrow> Some y)"
  by (induction xs) simp_all

lemma find_route_app_get:
  "find_route pm (app_get p h a) m q =
     (case find_route pm a m q of
        None \<Rightarrow> (if m = ''GET'' \<and> pm p q
                 then Some \<lparr>route_method = ''GET'', route_path = p, endpoint = h\<rparr> else None)
      | Some r \<Rightarrow> Some r)"
  by (simp add: find_route_def app_get_def find_snoc split: option.splits)

lemma add_health_endpoint_apps:
  assumes "add_health_endpoint a s = (r, s')"
  shows "r = None" and "apps s' = (apps s)(a := app_get ''/health'' health (apps s a))"
  using assms by (auto simp add: add_health_endpoint_def emit_def)

lemmas example_defs = example_collaborators_def start_state_def

section \<open>The port\<close>

text \<open>
  What line 48 resolves, by what the variable holds, and the literals of the examples.
\<close>

lemma resolve_port_unset: "env ''PORT'' = None \<Longrightarrow> resolve_port lim env = Inr 8001"
  by (simp add: resolve_port_def os_getenv_def)

lemma resolve_port_literal:
  "env ''PORT'' = Some v \<Longrightarrow> int_literal v n \<Longrightarrow> \<not> exceeds_limit lim (digit_count v) \<Longrightarrow>
     resolve_port lim env = Inr n"
  by (simp add: resolve_port_def os_getenv_def int_of_str_literal)

lemma resolve_port_not_literal:
  "env ''PORT'' = Some v \<Longrightarrow> \<forall>n. \<not> int_literal v n \<Longrightarrow> resolve_port lim env = Inl ValueError"
  by (simp add: resolve_port_def os_getenv_def int_of_str_not_literal)

lemma resolve_port_over_limit:
  "env ''PORT'' = Some v \<Longrightarrow> exceeds_limit lim (digit_count v) \<Longrightarrow>
     resolve_port lim env = Inl ValueError"
  by (simp add: resolve_port_def os_getenv_def int_of_str_over_limit)

lemma empty_not_literal: "\<not> int_literal [] n"
  by (simp add: int_literal_def literal_body_def)

lemma literal_has_digit: "int_literal s n \<Longrightarrow> \<exists>c \<in> set s. is_digit c"
  unfolding int_literal_def literal_body_def
  by (metis Un_iff last_in_set set_append)

lemma bindable_listeners_entry_events:
  "bindable_listeners (startup_events a r @ entry_events a n) =
     (if tcp_port n then [(a, ''0.0.0.0'', n)] else [])"
  by (simp add: bindable_listeners_def listeners_entry_events)

lemma lit_9090: "int_literal (lit ''9090'') 9090" "digit_count (lit ''9090'') = 4"
proof -
  have d: "list_all is_digit (lit ''9090'')"
    by (simp add: lit_def ascii_digit)
  have "decimal (lit ''9090'') = 9090"
    by (simp add: lit_def decimal_def ascii_digit)
  then show "int_literal (lit ''9090'') 9090"
    using digits_literal [OF _ d] by (simp add: lit_def)
  show "digit_count (lit ''9090'') = 4"
    using d by (simp add: digit_count_def lit_def list_all_iff)
qed

lemma abc_not_literal: "\<forall>n. \<not> int_literal (lit ''abc'') n"
proof (intro allI notI)
  fix n assume "int_literal (lit ''abc'') n"
  then obtain c where "c \<in> set (lit ''abc'')" and "is_digit c"
    using literal_has_digit by blast
  then show False
    by (auto simp add: lit_def is_digit_def digit_of_def decimal_zeros_def)
qed

lemma lit_70000: "int_literal (lit ''70000'') 70000" "digit_count (lit ''70000'') = 5"
proof -
  have d: "list_all is_digit (lit ''70000'')"
    by (simp add: lit_def ascii_digit)
  have "decimal (lit ''70000'') = 70000"
    by (simp add: lit_def decimal_def ascii_digit)
  then show "int_literal (lit ''70000'') 70000"
    using digits_literal [OF _ d] by (simp add: lit_def)
  show "digit_count (lit ''70000'') = 5"
    using d by (simp add: digit_count_def lit_def list_all_iff)
qed

lemma ones_literal:
  "0 < k \<Longrightarrow> int_literal (replicate k 49) (decimal (replicate k 49))"
  "digit_count (replicate k 49) = k"
proof -
  have d: "is_digit 49" by (simp add: ascii_digit)
  then have a: "list_all is_digit (replicate k 49)"
    by (simp add: list_all_iff)
  show "0 < k \<Longrightarrow> int_literal (replicate k 49) (decimal (replicate k 49))"
    using a by (intro digits_literal) simp_all
  show "digit_count (replicate k 49) = k"
    using d by (simp add: digit_count_def)
qed

text \<open>
  A string of digits beyond ASCII is read as well: the Arabic-Indic digits one, two,
  three.
\<close>

lemma arabic_indic_digit: "1632 \<le> c \<Longrightarrow> c \<le> 1641 \<Longrightarrow> digit_of c = Some (c - 1632)"
  by (simp add: digit_of_def decimal_zeros_def)

lemma arabic_indic_123: "int_of_str lim [1633, 1634, 1635] = Some 123"
proof -
  have d: "list_all is_digit [1633, 1634, 1635]"
    by (simp add: is_digit_def arabic_indic_digit)
  have "decimal [1633, 1634, 1635] = 123"
    by (simp add: decimal_def digit_val_def arabic_indic_digit)
  then have "int_literal [1633, 1634, 1635] 123"
    using digits_literal [OF _ d] by simp
  moreover have "digit_count [1633, 1634, 1635] = 3"
    using d by (simp add: digit_count_def)
  ultimately show ?thesis
    by (simp add: int_of_str_literal exceeds_limit_def)
qed

text \<open>
  C3: in every environment in which the variable \<^verbatim>\<open>PORT\<close> is absent, the resolved port
  is the integer 8001, whatever the digit limit. The environment is the one line 48
  reads: the process's environment as the loader of line 18 left it. For such an
  environment, a run as \<^verbatim>\<open>__main__\<close> whose constructor does not raise binds \<open>port\<close> to
  8001 and starts the listener on it.
\<close>

theorem port_default_8001:
  assumes "env ''PORT'' = None"
  shows "resolve_port lim env = Inr 8001 \<and>
    (load_dotenv c (os_environ s) = Inr env \<and> BarQueryConstructor c env = Inr q \<longrightarrow>
       port (snd (module_body c ''__main__'' s)) = Some 8001 \<and>
       listeners (new_events s (snd (module_body c ''__main__'' s))) =
         [(es_app s, ''0.0.0.0'', 8001)])"
proof -
  have p: "resolve_port l env = Inr 8001" for l
    using assms by (rule resolve_port_unset)
  show ?thesis
    by (simp add: p module_body_main_ok [OF _ _ p] new_events_def listeners_entry_events)
qed

theorem port_default_8001_witness:
  "resolve_port 4300 Map.empty = Inr 8001 \<and>
   port (snd (module_body example_collaborators ''__main__'' (start_state Map.empty))) = Some 8001 \<and>
   listeners (new_events (start_state Map.empty)
       (snd (module_body example_collaborators ''__main__'' (start_state Map.empty)))) =
     [(0, ''0.0.0.0'', 8001)]"
  using port_default_8001 [of Map.empty 4300 example_collaborators "start_state Map.empty" 7]
  by (simp add: example_defs)

text \<open>
  C9: when \<^verbatim>\<open>PORT\<close> is set to the empty string, \<^verbatim>\<open>os.getenv\<close> returns the empty
  string, not the default, and \<^verbatim>\<open>int\<close> raises \<open>ValueError\<close> on it: the run ends with
  that error, \<open>port\<close> is never bound (to 8001 or anything else) and no listener is
  started.
\<close>

theorem empty_port_raises:
  assumes "env ''PORT'' = Some []"
  shows "resolve_port lim env = Inl ValueError \<and>
    (load_dotenv c (os_environ s) = Inr env \<and> BarQueryConstructor c env = Inr q \<longrightarrow>
       fst (module_body c ''__main__'' s) = Some ValueError \<and>
       port (snd (module_body c ''__main__'' s)) = port s \<and>
       listeners (new_events s (snd (module_body c ''__main__'' s))) = [])"
proof -
  have p: "resolve_port l env = Inl ValueError" for l
    using assms by (simp add: resolve_port_def os_getenv_def int_of_str_def strip_def)
  show ?thesis
    by (simp add: p module_body_port_fails [OF _ _ p] new_events_def configured_def)
qed

theorem empty_port_raises_witness:
  "resolve_port 4300 (Map.empty(''PORT'' \<mapsto> [])) = Inl ValueError \<and>
   fst (module_body example_collaborators ''__main__'' (start_state (Map.empty(''PORT'' \<mapsto> []))))
     = Some ValueError \<and>
   port (snd (module_body example_collaborators ''__main__'' (start_state (Map.empty(''PORT'' \<mapsto> [])))))
     = None \<and>
   listeners (new_events (start_state (Map.empty(''PORT'' \<mapsto> [])))
       (snd (module_body example_collaborators ''__main__'' (start_state (Map.empty(''PORT'' \<mapsto> [])))))) = []"
  using empty_port_raises [of "Map.empty(''PORT'' \<mapsto> [])" 4300 example_collaborators
      "start_state (Map.empty(''PORT'' \<mapsto> []))" 7]
  by (simp add: example_defs)

text \<open>
  C2: in every environment in which \<^verbatim>\<open>PORT\<close> is set to a non-numeric string, a string
  that is no integer literal of any value, a run as \<^verbatim>\<open>__main__\<close> ends with an uncaught
  exception and starts no listener. When the constructor of line 28 returns, the
  exception is the \<open>ValueError\<close> of line 48, the read of the variable is the last
  event of the run and \<open>port\<close> is not bound. The environment is the one the loader of
  line 18 leaves. The literals are those of \<open>int_literal\<close>, stated without the parser;
  that the parser rejects every other string is \<open>int_of_str_not_literal\<close>.
\<close>

theorem bad_port_no_listener:
  assumes "load_dotenv c (os_environ s) = Inr env"
    and "env ''PORT'' = Some v" and "\<forall>n. \<not> int_literal v n"
  shows "fst (module_body c ''__main__'' s) \<noteq> None \<and>
    listeners (new_events s (snd (module_body c ''__main__'' s))) = [] \<and>
    (BarQueryConstructor c env = Inr q \<longrightarrow>
       fst (module_body c ''__main__'' s) = Some ValueError \<and>
       last (new_events s (snd (module_body c ''__main__'' s))) = EvGetenv ''PORT'' \<and>
       port (snd (module_body c ''__main__'' s)) = port s)"
proof -
  have p: "resolve_port (int_max_str_digits s) env = Inl ValueError"
    using assms(2,3) by (rule resolve_port_not_literal)
  show ?thesis
  proof (cases "BarQueryConstructor c env")
    case (Inl e)
    then show ?thesis
      using assms(1) by (simp add: module_body_construct_fails new_events_def)
  next
    case (Inr q')
    then show ?thesis
      using assms(1) p
      by (simp add: module_body_port_fails new_events_def configured_def)
  qed
qed

theorem bad_port_no_listener_witness:
  "fst (module_body example_collaborators ''__main__'' (start_state (Map.empty(''PORT'' \<mapsto> lit ''abc''))))
     = Some ValueError \<and>
   listeners (new_events (start_state (Map.empty(''PORT'' \<mapsto> lit ''abc'')))
     (snd (module_body example_collaborators ''__main__'' (start_state (Map.empty(''PORT'' \<mapsto> lit ''abc''))))))
     = [] \<and>
   last (new_events (start_state (Map.empty(''PORT'' \<mapsto> lit ''abc'')))
     (snd (module_body example_collaborators ''__main__'' (start_state (Map.empty(''PORT'' \<mapsto> lit ''abc''))))))
     = EvGetenv ''PORT'' \<and>
   port (snd (module_body example_collaborators ''__main__'' (start_state (Map.empty(''PORT'' \<mapsto> lit ''abc'')))))
     = None"
  using bad_port_no_listener [of example_collaborators
      "start_state (Map.empty(''PORT'' \<mapsto> lit ''abc''))" "Map.empty(''PORT'' \<mapsto> lit ''abc'')"
      "lit ''abc''" 7] abc_not_literal
  by (simp add: example_defs)

text \<open>
  C8, as the claim states it, fails twice. \<^verbatim>\<open>PORT=70000\<close> is a numeric string and the
  wrapper passes 70000 to \<^verbatim>\<open>uvicorn.run\<close>, but 70000 is no TCP port and no listener
  can be bound on it. A string of 4301 digits is a numeric string, but under the
  default limit of 4300 digits \<^verbatim>\<open>int\<close> raises \<open>ValueError\<close> on it: no port is resolved
  and no listener is started.
\<close>

theorem numeric_port_counterexample:
  "int_literal (lit ''70000'') 70000 \<and>
   resolve_port 4300 (Map.empty(''PORT'' \<mapsto> lit ''70000'')) = Inr 70000 \<and>
   listeners (new_events (start_state (Map.empty(''PORT'' \<mapsto> lit ''70000'')))
     (snd (module_body example_collaborators ''__main__''
       (start_state (Map.empty(''PORT'' \<mapsto> lit ''70000'')))))) = [(0, ''0.0.0.0'', 70000)] \<and>
   \<not> tcp_port 70000 \<and>
   bindable_listeners (new_events (start_state (Map.empty(''PORT'' \<mapsto> lit ''70000'')))
     (snd (module_body example_collaborators ''__main__''
       (start_state (Map.empty(''PORT'' \<mapsto> lit ''70000'')))))) = [] \<and>
   int_literal (replicate 4301 49) (decimal (replicate 4301 49)) \<and>
   resolve_port 4300 (Map.empty(''PORT'' \<mapsto> replicate 4301 49)) = Inl ValueError \<and>
   fst (module_body example_collaborators ''__main__''
     (start_state (Map.empty(''PORT'' \<mapsto> replicate 4301 49)))) = Some ValueError \<and>
   listeners (new_events (start_state (Map.empty(''PORT'' \<mapsto> replicate 4301 49)))
     (snd (module_body example_collaborators ''__main__''
       (start_state (Map.empty(''PORT'' \<mapsto> replicate 4301 49)))))) = []"
proof -
  let ?e1 = "Map.empty(''PORT'' \<mapsto> lit ''70000'')"
  let ?e2 = "Map.empty(''PORT'' \<mapsto> replicate 4301 (49::nat))"
  have p1: "resolve_port (int_max_str_digits (start_state ?e1)) ?e1 = Inr 70000"
    by (rule resolve_port_literal [OF _ lit_70000(1)])
      (simp_all add: lit_70000(2) exceeds_limit_def)
  have p2: "resolve_port (int_max_str_digits (start_state ?e2)) ?e2 = Inl ValueError"
    by (rule resolve_port_over_limit [where v = "replicate 4301 49"])
      (simp_all add: ones_literal(2) exceeds_limit_def start_state_def)
  have l1: "load_dotenv example_collaborators (os_environ (start_state e)) = Inr e" for e
    by (simp add: example_defs)
  have c1: "BarQueryConstructor example_collaborators e = Inr 7" for e
    by (simp add: example_defs)
  note run1 = module_body_main_ok [OF l1 c1 p1]
  note run2 = module_body_port_fails [OF l1 c1 p2]
  have "\<not> tcp_port 70000" by (simp add: tcp_port_def)
  moreover have "int_literal (replicate 4301 49) (decimal (replicate 4301 49))"
    by (rule ones_literal(1)) simp
  moreover have "resolve_port 4300 ?e1 = Inr 70000" "resolve_port 4300 ?e2 = Inl ValueError"
    using p1 p2 by (simp_all add: start_state_def)
  ultimately show ?thesis
    using lit_70000(1)
    by (simp add: run1 run2 new_events_def listeners_entry_events
        bindable_listeners_entry_events configured_def)
      (simp add: start_state_def)
qed

text \<open>
  C8, amended: in every environment in which \<^verbatim>\<open>PORT\<close> is set to an integer literal of
  value \<open>n\<close> whose digits are within the interpreter's limit, the resolved port is
  \<open>n\<close>, and a run as \<^verbatim>\<open>__main__\<close> whose constructor returns makes exactly one call of
  \<^verbatim>\<open>uvicorn.run\<close>, its last event, with the Application, host \<^verbatim>\<open>0.0.0.0\<close> and port
  \<open>n\<close>, and ends as that call ends. A listener can be bound on that port only when
  \<open>n\<close> is a TCP port, from 0 to 65535. In every run whatever (\<open>c0\<close>, \<open>name0\<close>,
  \<open>s0\<close>), every start of the listener has host \<^verbatim>\<open>0.0.0.0\<close>.
\<close>

theorem numeric_port_listens:
  assumes "load_dotenv c (os_environ s) = Inr env" and "BarQueryConstructor c env = Inr q"
    and "env ''PORT'' = Some v" and "int_literal v n"
    and "\<not> exceeds_limit (int_max_str_digits s) (digit_count v)"
  shows "resolve_port (int_max_str_digits s) env = Inr n \<and>
    port (snd (module_body c ''__main__'' s)) = Some n \<and>
    listeners (new_events s (snd (module_body c ''__main__'' s))) = [(es_app s, ''0.0.0.0'', n)] \<and>
    last (new_events s (snd (module_body c ''__main__'' s))) = EvUvicornRun (es_app s) ''0.0.0.0'' n \<and>
    fst (module_body c ''__main__'' s) = uvicorn_run c (es_app s) ''0.0.0.0'' n \<and>
    bindable_listeners (new_events s (snd (module_body c ''__main__'' s))) =
      (if tcp_port n then [(es_app s, ''0.0.0.0'', n)] else []) \<and>
    list_all (\<lambda>(a, h, p). h = ''0.0.0.0'')
      (listeners (new_events s0 (snd (module_body c0 name0 s0))))"
proof -
  have p: "resolve_port (int_max_str_digits s) env = Inr n"
    using assms(3,4,5) by (rule resolve_port_literal)
  note run = module_body_main_ok [OF assms(1,2) p]
  have "last (new_events s (snd (module_body c ''__main__'' s))) =
      EvUvicornRun (es_app s) ''0.0.0.0'' n"
    by (simp add: run new_events_def entry_events_def)
  then show ?thesis
    using listeners_host [of s0 c0 name0]
    by (simp add: p run new_events_def listeners_entry_events bindable_listeners_entry_events)
qed

theorem numeric_port_listens_witness:
  "resolve_port 4300 (Map.empty(''PORT'' \<mapsto> lit ''9090'')) = Inr 9090 \<and>
   port (snd (module_body example_collaborators ''__main__''
     (start_state (Map.empty(''PORT'' \<mapsto> lit ''9090''))))) = Some 9090 \<and>
   listeners (new_events (start_state (Map.empty(''PORT'' \<mapsto> lit ''9090'')))
     (snd (module_body example_collaborators ''__main__''
       (start_state (Map.empty(''PORT'' \<mapsto> lit ''9090'')))))) = [(0, ''0.0.0.0'', 9090)] \<and>
   bindable_listeners (new_events (start_state (Map.empty(''PORT'' \<mapsto> lit ''9090'')))
     (snd (module_body example_collaborators ''__main__''
       (start_state (Map.empty(''PORT'' \<mapsto> lit ''9090'')))))) = [(0, ''0.0.0.0'', 9090)] \<and>
   fst (module_body example_collaborators ''__main__''
     (start_state (Map.empty(''PORT'' \<mapsto> lit ''9090'')))) = None"
  using numeric_port_listens [of example_collaborators
      "start_state (Map.empty(''PORT'' \<mapsto> lit ''9090''))" "Map.empty(''PORT'' \<mapsto> lit ''9090'')" 7
      "lit ''9090''" 9090 "start_state Map.empty" example_collaborators "''__main__''"]
    lit_9090
  by (simp add: example_defs exceeds_limit_def tcp_port_def)

section \<open>The bootstrap\<close>




text \<open>
  C7: when the loader and the constructor return, a run as \<^verbatim>\<open>__main__\<close> whose port
  resolves to \<open>n\<close> makes one call of \<^verbatim>\<open>uvicorn.run\<close>, on the Application that carries the
  health route and next to the substituted query constructor, with host \<^verbatim>\<open>0.0.0.0\<close>
  and port \<open>n\<close>, and the run ends as that call of the server ends: with what it
  returns or raises. A run under any other name (an import) ends without an
  exception, starts no listener, reads no environment variable, leaves \<open>port\<close> as it
  was, and binds \<open>app\<close> to the same configured Application.
\<close>

theorem entry_point_guard:
  assumes "load_dotenv c (os_environ s) = Inr env" and "BarQueryConstructor c env = Inr q"
  shows "(resolve_port (int_max_str_digits s) env = Inr n \<longrightarrow>
      listeners (new_events s (snd (module_body c ''__main__'' s))) = [(es_app s, ''0.0.0.0'', n)] \<and>
      fst (module_body c ''__main__'' s) = uvicorn_run c (es_app s) ''0.0.0.0'' n \<and>
      app (snd (module_body c ''__main__'' s)) = Some (es_app s) \<and>
      routes (apps (snd (module_body c ''__main__'' s)) (es_app s)) =
        routes (apps s (es_app s)) @
          [\<lparr>route_method = ''GET'', route_path = ''/health'', endpoint = health\<rparr>] \<and>
      es_query_constructor (snd (module_body c ''__main__'' s)) = Some (length (qcs s))) \<and>
    (name \<noteq> ''__main__'' \<longrightarrow>
      fst (module_body c name s) = None \<and>
      listeners (new_events s (snd (module_body c name s))) = [] \<and>
      env_reads (new_events s (snd (module_body c name s))) = [] \<and>
      port (snd (module_body c name s)) = port s \<and>
      app (snd (module_body c name s)) = Some (es_app s) \<and>
      routes (apps (snd (module_body c name s)) (es_app s)) =
        routes (apps s (es_app s)) @
          [\<lparr>route_method = ''GET'', route_path = ''/health'', endpoint = health\<rparr>] \<and>
      es_query_constructor (snd (module_body c name s)) = Some (length (qcs s)))"
proof (intro conjI impI)
  assume p: "resolve_port (int_max_str_digits s) env = Inr n"
  note run = module_body_main_ok [OF assms p]
  show "listeners (new_events s (snd (module_body c ''__main__'' s))) = [(es_app s, ''0.0.0.0'', n)]"
    by (simp add: run new_events_def listeners_entry_events)
  show "fst (module_body c ''__main__'' s) = uvicorn_run c (es_app s) ''0.0.0.0'' n"
    by (simp add: run)
  show "app (snd (module_body c ''__main__'' s)) = Some (es_app s)"
    by (simp add: run configured_fields)
  show "routes (apps (snd (module_body c ''__main__'' s)) (es_app s)) =
        routes (apps s (es_app s)) @
          [\<lparr>route_method = ''GET'', route_path = ''/health'', endpoint = health\<rparr>]"
    by (simp add: run configured_fields app_get_def)
  show "es_query_constructor (snd (module_body c ''__main__'' s)) = Some (length (qcs s))"
    by (simp add: run configured_fields)
next
  assume i: "name \<noteq> ''__main__''"
  note run = module_body_imported [OF assms i]
  show "fst (module_body c name s) = None"
    by (simp add: run)
  show "listeners (new_events s (snd (module_body c name s))) = []"
    by (simp add: run new_events_def configured_def)
  show "env_reads (new_events s (snd (module_body c name s))) = []"
    by (simp add: run new_events_def configured_def env_reads_startup_events)
  show "port (snd (module_body c name s)) = port s"
    by (simp add: run configured_fields)
  show "app (snd (module_body c name s)) = Some (es_app s)"
    by (simp add: run configured_fields)
  show "routes (apps (snd (module_body c name s)) (es_app s)) =
        routes (apps s (es_app s)) @
          [\<lparr>route_method = ''GET'', route_path = ''/health'', endpoint = health\<rparr>]"
    by (simp add: run configured_fields app_get_def)
  show "es_query_constructor (snd (module_body c name s)) = Some (length (qcs s))"
    by (simp add: run configured_fields)
qed

theorem entry_point_guard_witness:
  "listeners (new_events (start_state Map.empty)
     (snd (module_body example_collaborators ''__main__'' (start_state Map.empty))))
     = [(0, ''0.0.0.0'', 8001)] \<and>
   fst (module_body example_collaborators ''__main__'' (start_state Map.empty)) = None \<and>
   app (snd (module_body example_collaborators ''__main__'' (start_state Map.empty))) = Some 0 \<and>
   fst (module_body example_collaborators ''wrapper'' (start_state Map.empty)) = None \<and>
   listeners (new_events (start_state Map.empty)
     (snd (module_body example_collaborators ''wrapper'' (start_state Map.empty)))) = [] \<and>
   env_reads (new_events (start_state Map.empty)
     (snd (module_body example_collaborators ''wrapper'' (start_state Map.empty)))) = [] \<and>
   port (snd (module_body example_collaborators ''wrapper'' (start_state Map.empty))) = None \<and>
   app (snd (module_body example_collaborators ''wrapper'' (start_state Map.empty))) = Some 0 \<and>
   map route_path (routes (apps
     (snd (module_body example_collaborators ''wrapper'' (start_state Map.empty))) 0))
     = [''/health'']"
  using entry_point_guard [of example_collaborators "start_state Map.empty" Map.empty 7 8001
      "''wrapper''"]
  by (simp add: example_defs resolve_port_def os_getenv_def)

text \<open>
  C4: when the loader and the constructor return, after the run the attribute
  \<^verbatim>\<open>example_server.query_constructor\<close> holds the reference that line 28 bound to
  \<open>bar_constructor\<close>: the address allocated for the new object, at which the store
  holds the content \<open>q\<close> that the constructor returned, all older objects being where
  they were. The run writes the attribute once, with that reference. In every run
  whatever (\<open>c0\<close>, \<open>name0\<close>, \<open>s0\<close>), no other reference is ever written to it. The
  attribute is one cell, so that it holds at most one query constructor at a time.
\<close>

theorem query_constructor_slot:
  assumes "load_dotenv c (os_environ s) = Inr env" and "BarQueryConstructor c env = Inr q"
    and "module_body c name s = (r, s')"
  shows "bar_constructor s' = Some (length (qcs s)) \<and>
    es_query_constructor s' = Some (length (qcs s)) \<and>
    qcs s' = qcs s @ [q] \<and>
    qcs s' ! length (qcs s) = q \<and>
    qc_writes (new_events s s') = [length (qcs s)] \<and>
    set (qc_writes (new_events s0 (snd (module_body c0 name0 s0)))) \<subseteq> {length (qcs s0)}"
proof -
  obtain p t where "snd (module_body c name s) = (configured s env q)\<lparr>port := p, trace := t\<rparr>"
    using module_body_configured [OF assms(1,2)] by blast
  then have s': "s' = (configured s env q)\<lparr>port := p, trace := t\<rparr>"
    using assms(3) by simp
  have w: "qc_writes (new_events s s') = [length (qcs s)]"
    using assms
    by (cases "name = ''__main__''"; cases "resolve_port (int_max_str_digits s) env")
      (auto simp add: module_body_imported module_body_main_ok module_body_port_fails
        new_events_def configured_def qc_writes_append qc_writes_startup_events
        qc_writes_entry_events)
  have u: "set (qc_writes (new_events s0 (snd (module_body c0 name0 s0)))) \<subseteq> {length (qcs s0)}"
    by (rule new_events_cases [where c = c0 and s = s0 and name = name0])
      (simp_all add: qc_writes_append qc_writes_startup_events qc_writes_entry_events,
       simp add: startup_events_def)
  show ?thesis
    using w u by (simp add: s' configured_fields)
qed

theorem query_constructor_slot_witness:
  "bar_constructor (snd (module_body example_collaborators ''wrapper'' (start_state Map.empty)))
     = Some 0 \<and>
   es_query_constructor (snd (module_body example_collaborators ''wrapper'' (start_state Map.empty)))
     = Some 0 \<and>
   qcs (snd (module_body example_collaborators ''wrapper'' (start_state Map.empty))) = [7] \<and>
   qc_writes (new_events (start_state Map.empty)
     (snd (module_body example_collaborators ''wrapper'' (start_state Map.empty)))) = [0]"
  using query_constructor_slot [of example_collaborators "start_state Map.empty" Map.empty 7
      "''wrapper''" "fst (module_body example_collaborators ''wrapper'' (start_state Map.empty))"
      "snd (module_body example_collaborators ''wrapper'' (start_state Map.empty))"
      "start_state Map.empty" example_collaborators "''wrapper''"]
  by (simp add: example_defs)

text \<open>
  C10: when the loader and the constructor return, the wrapper's \<open>app\<close> and
  \<open>base_app\<close> hold the very reference that \<^verbatim>\<open>example_server.app\<close> holds, which the run
  does not change: one object under three names. The object it denotes has the health
  route after the routes it had, and \<^verbatim>\<open>example_server.query_constructor\<close> holds the
  new query constructor.
\<close>

theorem exposed_app_is_base_app:
  assumes "load_dotenv c (os_environ s) = Inr env" and "BarQueryConstructor c env = Inr q"
    and "module_body c name s = (r, s')"
  shows "app s' = Some (es_app s') \<and>
    base_app s' = Some (es_app s') \<and>
    es_app s' = es_app s \<and>
    routes (apps s' (es_app s')) = routes (apps s (es_app s)) @
      [\<lparr>route_method = ''GET'', route_path = ''/health'', endpoint = health\<rparr>] \<and>
    es_query_constructor s' = bar_constructor s' \<and>
    bar_constructor s' = Some (length (qcs s))"
proof -
  obtain p t where "snd (module_body c name s) = (configured s env q)\<lparr>port := p, trace := t\<rparr>"
    using module_body_configured [OF assms(1,2)] by blast
  then have s': "s' = (configured s env q)\<lparr>port := p, trace := t\<rparr>"
    using assms(3) by simp
  show ?thesis
    by (simp add: s' configured_fields app_get_def)
qed

theorem exposed_app_is_base_app_witness:
  "app (snd (module_body example_collaborators ''wrapper'' (start_state Map.empty))) = Some 0 \<and>
   es_app (snd (module_body example_collaborators ''wrapper'' (start_state Map.empty))) = 0 \<and>
   base_app (snd (module_body example_collaborators ''wrapper'' (start_state Map.empty))) = Some 0 \<and>
   map route_path (routes (apps
     (snd (module_body example_collaborators ''wrapper'' (start_state Map.empty))) 0)) = [''/health'']"
  using exposed_app_is_base_app [of example_collaborators "start_state Map.empty" Map.empty 7
      "''wrapper''" "fst (module_body example_collaborators ''wrapper'' (start_state Map.empty))"
      "snd (module_body example_collaborators ''wrapper'' (start_state Map.empty))"]
  by (simp add: example_defs module_body_def main_block_def stmt_defs app_get_def)


section \<open>The health endpoint\<close>

text \<open>
  C1: the handler that \<^verbatim>\<open>add_health_endpoint\<close> registers, the last route of the
  Application, of method GET and path \<^verbatim>\<open>/health\<close>, returns the dict
  \<^verbatim>\<open>{"status": "healthy", "service": "bar-server"}\<close> and leaves the world as it found
  it, in every state \<open>s\<close> of the process, for every Application and in the world
  after any history \<open>hist\<close> of requests; it raises nothing. When no older route handles
  GET \<^verbatim>\<open>/health\<close>, that is also what the Application serves for that request. The dict
  is a value, built by the handler at each call.
\<close>

theorem health_handler_constant:
  assumes "add_health_endpoint a s = (r, s')"
  shows "route_method (last (routes (apps s' a))) = ''GET'' \<and>
    route_path (last (routes (apps s' a))) = ''/health'' \<and>
    endpoint (last (routes (apps s' a))) (serve_all pm (apps s' a) hist w) =
      (Inr (PyDict [(PyStr (lit ''status''), PyStr (lit ''healthy'')), (PyStr (lit ''service''), PyStr (lit ''bar-server''))]),
       serve_all pm (apps s' a) hist w) \<and>
    (find_route pm (apps s a) ''GET'' ''/health'' = None \<and> pm ''/health'' ''/health'' \<longrightarrow>
       serve pm (apps s' a) ''GET'' ''/health'' (serve_all pm (apps s' a) hist w) =
         (Inr (PyDict [(PyStr (lit ''status''), PyStr (lit ''healthy'')), (PyStr (lit ''service''), PyStr (lit ''bar-server''))]),
          serve_all pm (apps s' a) hist w))"
proof -
  have a': "apps s' a = app_get ''/health'' health (apps s a)"
    using add_health_endpoint_apps(2) [OF assms] by simp
  have l: "last (routes (apps s' a)) =
      \<lparr>route_method = ''GET'', route_path = ''/health'', endpoint = health\<rparr>"
    by (simp add: a' app_get_def)
  show ?thesis
    by (simp add: l health_def serve_def) (simp add: a' find_route_app_get health_def)
qed

theorem health_handler_constant_witness:
  "route_path (last (routes (apps (snd (add_health_endpoint 0 served_state)) 0))) = ''/health'' \<and>
   serve_all (=) (apps (snd (add_health_endpoint 0 served_state)) 0)
     [(''GET'', ''/''), (''GET'', ''/health''), (''GET'', ''/'')] 0 = 2 \<and>
   serve (=) (apps (snd (add_health_endpoint 0 served_state)) 0) ''GET'' ''/health''
     (serve_all (=) (apps (snd (add_health_endpoint 0 served_state)) 0)
        [(''GET'', ''/''), (''GET'', ''/health''), (''GET'', ''/'')] 0) =
     (Inr (PyDict [(PyStr (lit ''status''), PyStr (lit ''healthy'')), (PyStr (lit ''service''), PyStr (lit ''bar-server''))]), 2)"
  using health_handler_constant [of 0 served_state "fst (add_health_endpoint 0 served_state)"
      "snd (add_health_endpoint 0 served_state)" "(=)"
      "[(''GET'', ''/''), (''GET'', ''/health''), (''GET'', ''/'')]" 0]
  by (simp add: served_state_def add_health_endpoint_def emit_def app_get_def serve_def
      find_route_def example_root_def health_def)

text \<open>
  C5: \<^verbatim>\<open>add_health_endpoint\<close> raises nothing and changes the route table of the one
  Application it is given by adding the health route at its end: every route that was
  there is still there, at its place, with its method, path and handler. Every other
  Application is as it was. A request that a route of the old table handled is
  handled by the same route, with the same response and the same effect on the world.
\<close>

theorem health_route_frame:
  assumes "add_health_endpoint a s = (r, s')"
  shows "r = None \<and>
    routes (apps s' a) = routes (apps s a) @
      [\<lparr>route_method = ''GET'', route_path = ''/health'', endpoint = health\<rparr>] \<and>
    (\<forall>i < length (routes (apps s a)). routes (apps s' a) ! i = routes (apps s a) ! i) \<and>
    (\<forall>b. b \<noteq> a \<longrightarrow> apps s' b = apps s b) \<and>
    (\<forall>m p rt. find_route pm (apps s a) m p = Some rt \<longrightarrow>
       find_route pm (apps s' a) m p = Some rt \<and>
       serve pm (apps s' a) m p w = serve pm (apps s a) m p w)"
proof -
  have a': "apps s' = (apps s)(a := app_get ''/health'' health (apps s a))"
    by (rule add_health_endpoint_apps(2) [OF assms])
  show ?thesis
    using add_health_endpoint_apps(1) [OF assms]
    by (simp add: a' find_route_app_get serve_def) (simp add: app_get_def nth_append)
qed

theorem health_route_frame_witness:
  "fst (add_health_endpoint 0 served_state) = None \<and>
   routes (apps (snd (add_health_endpoint 0 served_state)) 0) =
     [\<lparr>route_method = ''GET'', route_path = ''/'', endpoint = example_root\<rparr>,
      \<lparr>route_method = ''GET'', route_path = ''/health'', endpoint = health\<rparr>] \<and>
   find_route (=) (apps served_state 0) ''GET'' ''/'' =
     Some \<lparr>route_method = ''GET'', route_path = ''/'', endpoint = example_root\<rparr> \<and>
   serve (=) (apps (snd (add_health_endpoint 0 served_state)) 0) ''GET'' ''/'' 5 =
     (Inr (PyStr (lit ''ok'')), 6)"
  using health_route_frame [of 0 served_state "fst (add_health_endpoint 0 served_state)"
      "snd (add_health_endpoint 0 served_state)" "(=)" 5]
  by (simp add: served_state_def add_health_endpoint_def emit_def app_get_def serve_def
      find_route_def example_root_def)

end
